theory Spec2Isabelle
  imports Main
begin

section \<open>Data model of the scanners (scanners/*.ts)\<close>

text \<open>
  The union \<open>'critical' | 'high' | 'medium' | 'low'\<close> that every issue interface of the
  scanners declares for its \<open>severity\<close> field.
\<close>

datatype Severity = Critical | High | Medium | Low

text \<open>network.ts\<close>

record PortInfo =
  port :: nat
  protocol :: string
  service :: string
  state :: string
  severity :: Severity

record FirewallStatus =
  enabled :: bool
  fwtype :: string

record ListeningService =
  pid :: string
  command :: string
  port :: string

record NetworkScanResult =
  openPorts :: "PortInfo list"
  firewallStatus :: FirewallStatus
  listeningServices :: "ListeningService list"

text \<open>process.ts\<close>

record ProcessInfo =
  pid :: string
  command :: string
  user :: string
  issue :: string
  severity :: Severity

record EnvSecret =
  pid :: string
  command :: string
  secret :: string
  kind :: string

record ProcessScanResult =
  suspiciousProcesses :: "ProcessInfo list"
  privilegedProcesses :: "ProcessInfo list"
  secretsInEnv :: "EnvSecret list"

text \<open>filesystem.ts\<close>

record FileIssue =
  path :: string
  issue :: string
  severity :: Severity
  permissions :: "string option"

record FilesystemScanResult =
  sensitiveFileIssues :: "FileIssue list"
  worldWritableFiles :: "FileIssue list"
  suidFiles :: "FileIssue list"
  exposedSecrets :: "FileIssue list"

text \<open>
  dependencies.ts. The severity of a vulnerability is npm's own five-valued scale, and the
  buckets of the summary are the counts npm audit reports (natural numbers).
\<close>

datatype VulnSeverity = VCritical | VHigh | VModerate | VLow | VInfo

record Vulnerability =
  name :: string
  severity :: VulnSeverity
  version :: string
  description :: string

record VulnSummary =
  critical :: nat
  high :: nat
  moderate :: nat
  low :: nat
  info :: nat

record DependencyScanResult =
  hasPackageJson :: bool
  vulnerabilities :: "Vulnerability list"
  totalVulnerabilities :: nat
  summary :: VulnSummary

text \<open>configuration.ts\<close>

record ConfigIssue =
  inFile :: string
  issue :: string
  severity :: Severity
  line :: "string option"

record ConfigScanResult =
  sshConfigIssues :: "ConfigIssue list"
  secretsInConfig :: "ConfigIssue list"

text \<open>
  Modelled from the spec: the declaration of \<open>ContainerScanResult\<close> (containers.ts) is not
  among the sources. The aggregator reads \<open>containers.containers\<close>, each container's
  \<open>issues\<close> and each issue's \<open>severity\<close>; the severity is the spec's
  \<open>Severity \<in> {critical, high, medium, low}\<close>, as in every other scanner.
\<close>

record ContainerIssue =
  issue :: string
  severity :: Severity

record ContainerInfo =
  ident :: string
  issues :: "ContainerIssue list"

record ContainerScanResult =
  containers :: "ContainerInfo list"

section \<open>The risk aggregator (\<open>calculateSummary\<close>)\<close>

datatype RiskLevel = CRITICAL | HIGH | MEDIUM | LOW | CLEAN

text \<open>
  The four local counters of \<open>calculateSummary\<close>, and the summary it returns: the counters
  together with \<open>totalIssues\<close> and \<open>riskLevel\<close>.
\<close>

record counters =
  criticalIssues :: nat
  highIssues :: nat
  mediumIssues :: nat
  lowIssues :: nat

record Summary = counters +
  totalIssues :: nat
  riskLevel :: RiskLevel

text \<open>
  The body that six of the \<open>forEach\<close> loops share:
  \<^verbatim>\<open>if (x.severity === 'critical') criticalIssues++;
  else if (x.severity === 'high') highIssues++;
  else if (x.severity === 'medium') mediumIssues++;
  else if (x.severity === 'low') lowIssues++;\<close>
\<close>

definition bySeverity :: "Severity \<Rightarrow> counters \<Rightarrow> counters" where
  "bySeverity s c =
     (if s = Critical then c\<lparr>criticalIssues := criticalIssues c + 1\<rparr>
      else if s = High then c\<lparr>highIssues := highIssues c + 1\<rparr>
      else if s = Medium then c\<lparr>mediumIssues := mediumIssues c + 1\<rparr>
      else if s = Low then c\<lparr>lowIssues := lowIssues c + 1\<rparr>
      else c)"

text \<open>The body of the loop over \<open>worldWritableFiles\<close>: only \<open>'medium'\<close> is counted.\<close>

definition onlyMedium :: "Severity \<Rightarrow> counters \<Rightarrow> counters" where
  "onlyMedium s c = (if s = Medium then c\<lparr>mediumIssues := mediumIssues c + 1\<rparr> else c)"

text \<open>The body of the loop over \<open>exposedSecrets\<close>: \<open>'high'\<close>, else \<open>'medium'\<close>.\<close>

definition highOrMedium :: "Severity \<Rightarrow> counters \<Rightarrow> counters" where
  "highOrMedium s c =
     (if s = High then c\<lparr>highIssues := highIssues c + 1\<rparr>
      else if s = Medium then c\<lparr>mediumIssues := mediumIssues c + 1\<rparr>
      else c)"

definition incHigh :: "counters \<Rightarrow> counters" where
  "incHigh c = c\<lparr>highIssues := highIssues c + 1\<rparr>"

definition incLow :: "counters \<Rightarrow> counters" where
  "incLow c = c\<lparr>lowIssues := lowIssues c + 1\<rparr>"

text \<open>\<open>xs.forEach(f)\<close> on the counters: the body runs once per element, in order.\<close>

definition forEach :: "'a list \<Rightarrow> ('a \<Rightarrow> counters \<Rightarrow> counters) \<Rightarrow> counters \<Rightarrow> counters" where
  "forEach xs f c = fold f xs c"

definition resolveRiskLevel :: "counters \<Rightarrow> RiskLevel" where
  "resolveRiskLevel c =
     (if criticalIssues c > 0 then CRITICAL
      else if highIssues c > 0 then HIGH
      else if mediumIssues c > 0 then MEDIUM
      else if lowIssues c > 0 then LOW
      else CLEAN)"

definition countAll :: "NetworkScanResult \<Rightarrow> ProcessScanResult \<Rightarrow> FilesystemScanResult \<Rightarrow>
    DependencyScanResult \<Rightarrow> ConfigScanResult \<Rightarrow> ContainerScanResult \<Rightarrow> counters" where
  "countAll network processes filesystem dependencies configuration containerScan =
     (let c0 = \<lparr>criticalIssues = 0, highIssues = 0, mediumIssues = 0, lowIssues = 0\<rparr>;
          c1 = forEach (openPorts network) (\<lambda>port. bySeverity (PortInfo.severity port)) c0;
          c2 = (if \<not> enabled (firewallStatus network) then incHigh c1 else c1);
          c3 = forEach (suspiciousProcesses processes)
                 (\<lambda>proc. bySeverity (ProcessInfo.severity proc)) c2;
          c4 = forEach (secretsInEnv processes) (\<lambda>_. incHigh) c3;
          c5 = forEach (sensitiveFileIssues filesystem)
                 (\<lambda>file. bySeverity (FileIssue.severity file)) c4;
          c6 = forEach (worldWritableFiles filesystem)
                 (\<lambda>file. onlyMedium (FileIssue.severity file)) c5;
          c7 = forEach (suidFiles filesystem) (\<lambda>_. incLow) c6;
          c8 = forEach (exposedSecrets filesystem)
                 (\<lambda>file. highOrMedium (FileIssue.severity file)) c7;
          c9 = \<lparr>criticalIssues = criticalIssues c8 + critical (summary dependencies),
                highIssues = highIssues c8 + high (summary dependencies),
                mediumIssues = mediumIssues c8 + moderate (summary dependencies),
                lowIssues = lowIssues c8 + low (summary dependencies)\<rparr>;
          c10 = forEach (sshConfigIssues configuration)
                 (\<lambda>issue. bySeverity (ConfigIssue.severity issue)) c9;
          c11 = forEach (secretsInConfig configuration)
                 (\<lambda>issue. bySeverity (ConfigIssue.severity issue)) c10;
          c12 = forEach (ContainerScanResult.containers containerScan)
                 (\<lambda>container. forEach (issues container)
                    (\<lambda>issue. bySeverity (ContainerIssue.severity issue))) c11
      in c12)"

definition calculateSummary :: "NetworkScanResult \<Rightarrow> ProcessScanResult \<Rightarrow>
    FilesystemScanResult \<Rightarrow> DependencyScanResult \<Rightarrow> ConfigScanResult \<Rightarrow>
    ContainerScanResult \<Rightarrow> Summary" where
  "calculateSummary network processes filesystem dependencies configuration containerScan =
     (let c = countAll network processes filesystem dependencies configuration containerScan
      in \<lparr>criticalIssues = criticalIssues c, highIssues = highIssues c,
          mediumIssues = mediumIssues c, lowIssues = lowIssues c,
          totalIssues = criticalIssues c + highIssues c + mediumIssues c + lowIssues c,
          riskLevel = resolveRiskLevel c\<rparr>)"

text \<open>
  The severities that \<open>calculateSummary\<close> counts one by one, in the order of its loops:
  every open port, suspicious process, sensitive-file issue, SSH issue, secret in a
  configuration file and container issue; the world-writable files that are \<open>'medium'\<close>;
  the exposed secret files that are \<open>'high'\<close> or \<open>'medium'\<close>.
\<close>

definition countedFindings :: "NetworkScanResult \<Rightarrow> ProcessScanResult \<Rightarrow>
    FilesystemScanResult \<Rightarrow> ConfigScanResult \<Rightarrow> ContainerScanResult \<Rightarrow> Severity list" where
  "countedFindings n p f c k =
     map PortInfo.severity (openPorts n) @
     map ProcessInfo.severity (suspiciousProcesses p) @
     map FileIssue.severity (sensitiveFileIssues f) @
     filter (\<lambda>s. s = Medium) (map FileIssue.severity (worldWritableFiles f)) @
     filter (\<lambda>s. s = High \<or> s = Medium) (map FileIssue.severity (exposedSecrets f)) @
     map ConfigIssue.severity (sshConfigIssues c) @
     map ConfigIssue.severity (secretsInConfig c) @
     concat (map (map ContainerIssue.severity \<circ> issues) (ContainerScanResult.containers k))"

text \<open>
  The spec's reading, "every Finding across all domains": every entry that carries a
  severity, in every list of the six results. The SUID/SGID files, the secrets of the
  environment and the dependency buckets are the spec's structural penalties, not Findings.
\<close>

definition allFindings :: "NetworkScanResult \<Rightarrow> ProcessScanResult \<Rightarrow>
    FilesystemScanResult \<Rightarrow> ConfigScanResult \<Rightarrow> ContainerScanResult \<Rightarrow> Severity list" where
  "allFindings n p f c k =
     map PortInfo.severity (openPorts n) @
     map ProcessInfo.severity (suspiciousProcesses p) @
     map ProcessInfo.severity (privilegedProcesses p) @
     map FileIssue.severity (sensitiveFileIssues f) @
     map FileIssue.severity (worldWritableFiles f) @
     map FileIssue.severity (exposedSecrets f) @
     map ConfigIssue.severity (sshConfigIssues c) @
     map ConfigIssue.severity (secretsInConfig c) @
     concat (map (map ContainerIssue.severity \<circ> issues) (ContainerScanResult.containers k))"

text \<open>
  The reference counting function of the spec (4.3), over a given list of Finding
  severities: each Finding increments the counter of its severity; a disabled firewall
  adds one high; the dependency buckets are added verbatim (moderate to medium); each
  SUID/SGID file adds one low; each secret of the environment adds one high;
  \<open>totalIssues\<close> is the sum of the four counters and \<open>riskLevel\<close> the priority ladder.
\<close>

definition referenceSummary :: "Severity list \<Rightarrow> NetworkScanResult \<Rightarrow> ProcessScanResult \<Rightarrow>
    FilesystemScanResult \<Rightarrow> DependencyScanResult \<Rightarrow> Summary" where
  "referenceSummary fs n p f d =
     (let cr = count_list fs Critical + critical (summary d);
          hi = count_list fs High + (if enabled (firewallStatus n) then 0 else 1)
                 + length (secretsInEnv p) + high (summary d);
          me = count_list fs Medium + moderate (summary d);
          lo = count_list fs Low + length (suidFiles f) + low (summary d)
      in \<lparr>criticalIssues = cr, highIssues = hi, mediumIssues = me, lowIssues = lo,
          totalIssues = cr + hi + me + lo,
          riskLevel = (if cr > 0 then CRITICAL else if hi > 0 then HIGH
                       else if me > 0 then MEDIUM else if lo > 0 then LOW else CLEAN)\<rparr>)"

definition summarize_spec :: "NetworkScanResult \<Rightarrow> ProcessScanResult \<Rightarrow>
    FilesystemScanResult \<Rightarrow> DependencyScanResult \<Rightarrow> ConfigScanResult \<Rightarrow>
    ContainerScanResult \<Rightarrow> Summary" where
  "summarize_spec n p f d c k = referenceSummary (allFindings n p f c k) n p f d"

text \<open>
  The number of inputs \<open>calculateSummary\<close> counts: the counted findings, the firewall
  flag, the secrets of the environment, the SUID/SGID files and the four dependency buckets.
\<close>

definition countedInputs :: "NetworkScanResult \<Rightarrow> ProcessScanResult \<Rightarrow>
    FilesystemScanResult \<Rightarrow> DependencyScanResult \<Rightarrow> ConfigScanResult \<Rightarrow>
    ContainerScanResult \<Rightarrow> nat" where
  "countedInputs n p f d c k =
     length (countedFindings n p f c k)
     + (if enabled (firewallStatus n) then 0 else 1)
     + length (secretsInEnv p)
     + length (suidFiles f)
     + (critical (summary d) + high (summary d) + moderate (summary d) + low (summary d))"

text \<open>Concrete results used in the examples below.\<close>

definition cleanNetwork :: NetworkScanResult where
  "cleanNetwork = \<lparr>openPorts = [], firewallStatus = \<lparr>enabled = True, fwtype = ''ufw''\<rparr>,
     listeningServices = []\<rparr>"

definition cleanProcesses :: ProcessScanResult where
  "cleanProcesses = \<lparr>suspiciousProcesses = [], privilegedProcesses = [], secretsInEnv = []\<rparr>"

definition cleanFilesystem :: FilesystemScanResult where
  "cleanFilesystem = \<lparr>sensitiveFileIssues = [], worldWritableFiles = [], suidFiles = [],
     exposedSecrets = []\<rparr>"

definition cleanDependencies :: DependencyScanResult where
  "cleanDependencies = \<lparr>hasPackageJson = False, vulnerabilities = [], totalVulnerabilities = 0,
     summary = \<lparr>critical = 0, high = 0, moderate = 0, low = 0, info = 0\<rparr>\<rparr>"

definition cleanConfiguration :: ConfigScanResult where
  "cleanConfiguration = \<lparr>sshConfigIssues = [], secretsInConfig = []\<rparr>"

definition cleanContainers :: ContainerScanResult where
  "cleanContainers = \<lparr>containers = []\<rparr>"

text \<open>
  What \<open>findPrivilegedProcesses\<close> reports for one line of \<open>ps aux | grep "^root"\<close>: a
  \<open>'medium'\<close> entry.
\<close>

definition rootProcess :: ProcessInfo where
  "rootProcess = \<lparr>ProcessInfo.pid = ''1'', ProcessInfo.command = ''/sbin/init'',
     ProcessInfo.user = ''root'', ProcessInfo.issue = ''Running with root privileges'',
     ProcessInfo.severity = Medium\<rparr>"

text \<open>
  Entries of the severity \<open>'critical'\<close> for the lists that are not counted by severity.
\<close>

definition criticalFile :: FileIssue where
  "criticalFile = \<lparr>path = ''/home/u/.env'', FileIssue.issue = ''Potential secrets file found'',
     FileIssue.severity = Critical, permissions = None\<rparr>"

definition criticalProcess :: ProcessInfo where
  "criticalProcess = \<lparr>ProcessInfo.pid = ''1'', ProcessInfo.command = ''/sbin/init'',
     ProcessInfo.user = ''root'', ProcessInfo.issue = ''Running with root privileges'',
     ProcessInfo.severity = Critical\<rparr>"

definition telnetPort :: PortInfo where
  "telnetPort = \<lparr>PortInfo.port = 23, protocol = ''TCP'',
     service = ''Telnet (unencrypted)'', state = ''LISTENING'', PortInfo.severity = Critical\<rparr>"

definition unknownPort :: PortInfo where
  "unknownPort = \<lparr>PortInfo.port = 8080, protocol = ''TCP'', service = ''Unknown'',
     state = ''LISTENING'', PortInfo.severity = Low\<rparr>"

section \<open>The dependency scanner (\<open>scanDependencies\<close>)\<close>

text \<open>
  The fate of a promise: resolved with a value, rejected (an exception left the async
  function), or never settled.
\<close>

datatype 'a outcome = Resolved 'a | Rejected | Pending

text \<open>
  \<open>execAsync('npm audit --json', ...)\<close> either resolves with the standard output or
  rejects with an error that may carry the standard output (\<open>err.stdout\<close>).
\<close>

datatype exec_result = ExecOk string | ExecError "string option"

text \<open>
  npm's audit report as the scanner reads it after \<open>JSON.parse\<close>: the entries of
  \<open>auditData.vulnerabilities\<close> in the order of \<open>Object.entries\<close> (absent when the field is
  missing), for each entry the fields \<open>severity\<close>, \<open>range\<close> and \<open>via?.[0]?.title\<close>, and the
  five counts under \<open>metadata?.vulnerabilities\<close>; a field that is missing (or falsy) is
  \<open>None\<close>.
\<close>

record AuditVuln =
  auditSeverity :: "VulnSeverity option"
  auditRange :: "string option"
  auditViaTitle :: "string option"

record AuditData =
  auditVulnerabilities :: "(string \<times> AuditVuln) list option"
  metaCritical :: "nat option"
  metaHigh :: "nat option"
  metaModerate :: "nat option"
  metaLow :: "nat option"
  metaInfo :: "nat option"

text \<open>
  What the scanner reads from its environment: \<open>process.cwd()\<close> (which throws when the
  working directory is gone), whether \<open>package.json\<close> is accessible, and the outcome of
  \<open>npm audit\<close>.
\<close>

record dep_env =
  cwd :: "string option"
  packageJsonExists :: bool
  npmAudit :: exec_result

text \<open>JavaScript's \<open>x || d\<close> on an optional string (the empty string is falsy) and count.\<close>

definition orString :: "string option \<Rightarrow> string \<Rightarrow> string" where
  "orString x d = (case x of None \<Rightarrow> d | Some s \<Rightarrow> if s = [] then d else s)"

definition orZero :: "nat option \<Rightarrow> nat" where
  "orZero x = (case x of None \<Rightarrow> 0 | Some n \<Rightarrow> n)"

definition toVulnerability :: "string \<times> AuditVuln \<Rightarrow> Vulnerability" where
  "toVulnerability e =
     \<lparr>name = fst e,
      severity = (case auditSeverity (snd e) of None \<Rightarrow> VInfo | Some s \<Rightarrow> s),
      version = orString (auditRange (snd e)) ''unknown'',
      description = orString (auditViaTitle (snd e)) ''No description available''\<rparr>"

text \<open>The loop that pushes one \<open>Vulnerability\<close> per entry, guarded by \<open>if (auditData.vulnerabilities)\<close>.\<close>

definition parsedVulnerabilities :: "AuditData \<Rightarrow> Vulnerability list" where
  "parsedVulnerabilities auditData =
     (case auditVulnerabilities auditData of
        None \<Rightarrow> []
      | Some entries \<Rightarrow> fold (\<lambda>e vs. vs @ [toVulnerability e]) entries [])"

text \<open>
  The result built from a parsed report. The source has this code twice, for the standard
  output of a successful run and for \<open>err.stdout\<close> of a failed one.
\<close>

definition auditResult :: "AuditData \<Rightarrow> DependencyScanResult" where
  "auditResult auditData =
     (let vulns = parsedVulnerabilities auditData
      in \<lparr>hasPackageJson = True,
          vulnerabilities = take 20 vulns,
          totalVulnerabilities = length vulns,
          summary = \<lparr>critical = orZero (metaCritical auditData),
                      high = orZero (metaHigh auditData),
                      moderate = orZero (metaModerate auditData),
                      low = orZero (metaLow auditData),
                      info = orZero (metaInfo auditData)\<rparr>\<rparr>)"

definition emptyResult :: "bool \<Rightarrow> DependencyScanResult" where
  "emptyResult hasPkg =
     \<lparr>hasPackageJson = hasPkg, vulnerabilities = [], totalVulnerabilities = 0,
      summary = \<lparr>critical = 0, high = 0, moderate = 0, low = 0, info = 0\<rparr>\<rparr>"

text \<open>
  \<open>scanDependencies\<close>, with \<open>JSON.parse\<close> followed by the reading of the fields as the
  parameter \<open>parse\<close> (\<open>None\<close> when it throws). An exception in the first \<open>try\<close> block is
  caught by its \<open>catch\<close>, where the error has no \<open>stdout\<close>, so the empty result is returned.
\<close>

definition scanDependencies :: "(string \<Rightarrow> AuditData option) \<Rightarrow> dep_env \<Rightarrow>
    DependencyScanResult outcome" where
  "scanDependencies parse env =
     (case cwd env of
        None \<Rightarrow> Rejected
      | Some dir \<Rightarrow>
          if \<not> packageJsonExists env then Resolved (emptyResult False)
          else (case npmAudit env of
              ExecOk stdout \<Rightarrow>
                (case parse stdout of
                   Some auditData \<Rightarrow> Resolved (auditResult auditData)
                 | None \<Rightarrow> Resolved (emptyResult True))
            | ExecError errStdout \<Rightarrow>
                (case errStdout of
                   None \<Rightarrow> Resolved (emptyResult True)
                 | Some out \<Rightarrow>
                     if out = [] then Resolved (emptyResult True)
                     else (case parse out of
                         Some auditData \<Rightarrow> Resolved (auditResult auditData)
                       | None \<Rightarrow> Resolved (emptyResult True)))))"

text \<open>An audit report with \<open>n\<close> entries (packages a, aa, aaa, ...), for the examples.\<close>

definition reportOf :: "nat \<Rightarrow> AuditData" where
  "reportOf n =
     \<lparr>auditVulnerabilities = Some (map (\<lambda>i. (replicate (Suc i) (CHR ''a''),
        \<lparr>auditSeverity = Some VHigh, auditRange = Some ''<4.17.21'', auditViaTitle = None\<rparr>))
        [0..<n]),
      metaCritical = Some 0, metaHigh = Some n, metaModerate = None, metaLow = None,
      metaInfo = None\<rparr>"

section \<open>The orchestrator (\<open>runFullScan\<close>)\<close>

record ScanReport =
  timestamp :: string
  hostname :: string
  network :: NetworkScanResult
  processes :: ProcessScanResult
  filesystem :: FilesystemScanResult
  dependencies :: DependencyScanResult
  configuration :: ConfigScanResult
  containers :: ContainerScanResult
  summary :: Summary

text \<open>
  The part of the machine that \<open>runFullScan\<close> reads: the clock behind \<open>new Date()\<close>, in
  milliseconds, and what the \<open>hostname\<close> command does when it is run now.
\<close>

record world =
  clock :: nat
  hostnameCmd :: "string outcome"

text \<open>
  What happens to the machine while the scan waits at an \<open>await\<close>: time passes, and the
  host may be renamed.
\<close>

record await_step =
  elapsed :: nat
  hostnameThen :: "string outcome"

definition advance :: "await_step \<Rightarrow> world \<Rightarrow> world" where
  "advance st w = \<lparr>clock = clock w + elapsed st, hostnameCmd = hostnameThen st\<rparr>"

text \<open>One run of the scan: the two waits and the fates of the six scanner promises.\<close>

record scan_run =
  hostnameWait :: await_step
  scannersWait :: await_step
  networkP :: "NetworkScanResult outcome"
  processesP :: "ProcessScanResult outcome"
  filesystemP :: "FilesystemScanResult outcome"
  dependenciesP :: "DependencyScanResult outcome"
  configurationP :: "ConfigScanResult outcome"
  containersP :: "ContainerScanResult outcome"

text \<open>
  \<open>String.prototype.trim\<close> removes the WhiteSpace and LineTerminator code points from both
  ends of a string: U+0009 to U+000D, U+0020, U+00A0, U+1680, U+2000 to U+200A, U+2028,
  U+2029, U+202F, U+205F, U+3000 and U+FEFF. A string is held as its UTF-8 bytes, so each
  of these code points is the byte sequence listed here.
\<close>

definition whiteSpace :: "string list" where
  "whiteSpace =
     [[CHR 0x09], [CHR 0x0A], [CHR 0x0B], [CHR 0x0C], [CHR 0x0D], [CHR 0x20],
      [CHR 0xC2, CHR 0xA0],
      [CHR 0xE1, CHR 0x9A, CHR 0x80],
      [CHR 0xE2, CHR 0x80, CHR 0x80], [CHR 0xE2, CHR 0x80, CHR 0x81],
      [CHR 0xE2, CHR 0x80, CHR 0x82], [CHR 0xE2, CHR 0x80, CHR 0x83],
      [CHR 0xE2, CHR 0x80, CHR 0x84], [CHR 0xE2, CHR 0x80, CHR 0x85],
      [CHR 0xE2, CHR 0x80, CHR 0x86], [CHR 0xE2, CHR 0x80, CHR 0x87],
      [CHR 0xE2, CHR 0x80, CHR 0x88], [CHR 0xE2, CHR 0x80, CHR 0x89],
      [CHR 0xE2, CHR 0x80, CHR 0x8A],
      [CHR 0xE2, CHR 0x80, CHR 0xA8], [CHR 0xE2, CHR 0x80, CHR 0xA9],
      [CHR 0xE2, CHR 0x80, CHR 0xAF],
      [CHR 0xE2, CHR 0x81, CHR 0x9F],
      [CHR 0xE3, CHR 0x80, CHR 0x80],
      [CHR 0xEF, CHR 0xBB, CHR 0xBF]]"

definition startsWith :: "string \<Rightarrow> string \<Rightarrow> bool" where
  "startsWith s w = (take (length w) s = w)"

text \<open>
  Removing leading code points of a given set; each round removes at least one byte, so
  \<open>length s\<close> rounds are enough.
\<close>

fun stripLeading :: "string list \<Rightarrow> nat \<Rightarrow> string \<Rightarrow> string" where
  "stripLeading ws 0 s = s"
| "stripLeading ws (Suc n) s =
     (case find (startsWith s) ws of
        None \<Rightarrow> s
      | Some w \<Rightarrow> stripLeading ws n (drop (length w) s))"

definition trimStart :: "string \<Rightarrow> string" where
  "trimStart s = stripLeading whiteSpace (length s) s"

definition trimEnd :: "string \<Rightarrow> string" where
  "trimEnd s = rev (stripLeading (map rev whiteSpace) (length s) (rev s))"

definition trim :: "string \<Rightarrow> string" where
  "trim s = trimEnd (trimStart s)"

text \<open>\<open>getHostname\<close>: the trimmed output of \<open>hostname\<close>, or \<open>'unknown'\<close> when the command fails.\<close>

definition getHostname :: "string outcome \<Rightarrow> string outcome" where
  "getHostname cmd =
     (case cmd of
        Resolved stdout \<Rightarrow> Resolved (trim stdout)
      | Rejected \<Rightarrow> Resolved ''unknown''
      | Pending \<Rightarrow> Pending)"

text \<open>
  \<open>Promise.all\<close> on two promises: it rejects as soon as one of them rejects, and resolves
  once both have resolved.
\<close>

fun both :: "'a outcome \<Rightarrow> 'b outcome \<Rightarrow> ('a \<times> 'b) outcome" where
  "both Rejected _ = Rejected"
| "both _ Rejected = Rejected"
| "both Pending _ = Pending"
| "both _ Pending = Pending"
| "both (Resolved a) (Resolved b) = Resolved (a, b)"

definition promiseAll :: "'a outcome \<Rightarrow> 'b outcome \<Rightarrow> 'c outcome \<Rightarrow> 'd outcome \<Rightarrow> 'e outcome \<Rightarrow>
    'f outcome \<Rightarrow> ('a \<times> 'b \<times> 'c \<times> 'd \<times> 'e \<times> 'f) outcome" where
  "promiseAll a b c d e f = both a (both b (both c (both d (both e f))))"

text \<open>
  \<open>runFullScan\<close>: the host name is read first, the six scanners are awaited together, the
  summary is computed and the report is stamped with the time of that moment.
  \<open>toISOString\<close> is the platform's rendering of an instant.
\<close>

definition runFullScan :: "(nat \<Rightarrow> string) \<Rightarrow> scan_run \<Rightarrow> world \<Rightarrow> (ScanReport \<times> world) outcome" where
  "runFullScan toISOString run w0 =
     (case getHostname (hostnameCmd w0) of
        Pending \<Rightarrow> Pending
      | Rejected \<Rightarrow> Rejected
      | Resolved host \<Rightarrow>
          (let w1 = advance (hostnameWait run) w0
           in case promiseAll (networkP run) (processesP run) (filesystemP run)
                  (dependenciesP run) (configurationP run) (containersP run) of
                Pending \<Rightarrow> Pending
              | Rejected \<Rightarrow> Rejected
              | Resolved (nw, pr, fi, de, co, ct) \<Rightarrow>
                  (let w2 = advance (scannersWait run) w1;
                       s = calculateSummary nw pr fi de co ct
                   in Resolved
                       (\<lparr>timestamp = toISOString (clock w2), hostname = host,
                         network = nw, processes = pr, filesystem = fi, dependencies = de,
                         configuration = co, containers = ct, summary = s\<rparr>, w2))))"

text \<open>
  A decimal rendering of natural numbers; in the examples it stands for the platform's
  \<open>toISOString\<close>.
\<close>

definition digit :: "nat \<Rightarrow> char" where
  "digit d = ''0123456789'' ! d"

fun showNat :: "nat \<Rightarrow> string" where
  "showNat n =
     (if n < 10 then [digit n]
      else showNat (n div 10) @ [digit (n mod 10)])"

declare showNat.simps [simp del]

text \<open>Concrete runs for the examples: every scanner returns a clean result ...\<close>

definition alphaOut :: string where
  "alphaOut = ''alpha'' @ [CHR 0x0A]"

definition betaOut :: string where
  "betaOut = ''beta'' @ [CHR 0x0A]"

definition world0 :: world where
  "world0 = \<lparr>clock = 1000, hostnameCmd = Resolved alphaOut\<rparr>"

definition cleanRun :: scan_run where
  "cleanRun =
     \<lparr>hostnameWait = \<lparr>elapsed = 3, hostnameThen = Resolved alphaOut\<rparr>,
      scannersWait = \<lparr>elapsed = 5000, hostnameThen = Resolved alphaOut\<rparr>,
      networkP = Resolved cleanNetwork, processesP = Resolved cleanProcesses,
      filesystemP = Resolved cleanFilesystem, dependenciesP = Resolved cleanDependencies,
      configurationP = Resolved cleanConfiguration, containersP = Resolved cleanContainers\<rparr>"

text \<open>... the dependency scanner rejects (\<open>process.cwd()\<close> throws) ...\<close>

definition brokenRun :: scan_run where
  "brokenRun = cleanRun\<lparr>dependenciesP :=
     scanDependencies (\<lambda>_. None) \<lparr>cwd = None, packageJsonExists = True, npmAudit = ExecOk []\<rparr>\<rparr>"

text \<open>... the network scanner never settles (its \<open>netstat\<close> command has no timeout) ...\<close>

definition hungRun :: scan_run where
  "hungRun = cleanRun\<lparr>networkP := Pending\<rparr>"

text \<open>... the host is renamed while the scanners run.\<close>

definition renamedRun :: scan_run where
  "renamedRun = cleanRun\<lparr>scannersWait :=
     \<lparr>elapsed = 5000, hostnameThen = Resolved betaOut\<rparr>\<rparr>"

text \<open>The report of these runs, started in \<open>world0\<close>, and the machine after them.\<close>

definition report0 :: ScanReport where
  "report0 =
     \<lparr>timestamp = ''6003'', hostname = ''alpha'',
      network = cleanNetwork, processes = cleanProcesses, filesystem = cleanFilesystem,
      dependencies = cleanDependencies, configuration = cleanConfiguration,
      containers = cleanContainers,
      summary = \<lparr>criticalIssues = 0, highIssues = 0, mediumIssues = 0, lowIssues = 0,
                  totalIssues = 0, riskLevel = CLEAN\<rparr>\<rparr>"

definition renamedWorld :: world where
  "renamedWorld = \<lparr>clock = 6003, hostnameCmd = Resolved betaOut\<rparr>"

definition cleanWorld :: world where
  "cleanWorld = \<lparr>clock = 6003, hostnameCmd = Resolved alphaOut\<rparr>"

definition report1 :: ScanReport where
  "report1 = report0\<lparr>timestamp := ''11006''\<rparr>"

definition cleanWorld1 :: world where
  "cleanWorld1 = \<lparr>clock = 11006, hostnameCmd = Resolved alphaOut\<rparr>"

section \<open>Signing and verification (crypto/keys.ts)\<close>

text \<open>
  The functions of the platform that keys.ts calls, as parameters: the SHA-256 digest in
  hexadecimal (\<open>createHash('sha256').update(data).digest('hex')\<close>), the conversions of
  \<open>Buffer\<close> (\<open>Buffer.from(s, 'hex')\<close>, \<open>Buffer.from(s, 'base64')\<close>,
  \<open>buf.toString('base64')\<close>), and \<open>sign(null, hash, {key, format: 'pem'})\<close> and
  \<open>verify(null, hash, {key, format: 'pem'}, sig)\<close>, which throw on key material they
  cannot read.
\<close>

type_synonym buffer = "char list"

datatype crypto_error = CryptoError

record crypto =
  sha256Hex :: "string \<Rightarrow> string"
  bufferFromHex :: "string \<Rightarrow> buffer"
  bufferFromBase64 :: "string \<Rightarrow> buffer"
  toStringBase64 :: "buffer \<Rightarrow> string"
  nodeSign :: "buffer \<Rightarrow> string \<Rightarrow> crypto_error + buffer"
  nodeVerify :: "buffer \<Rightarrow> string \<Rightarrow> buffer \<Rightarrow> crypto_error + bool"

definition hashData :: "crypto \<Rightarrow> string \<Rightarrow> string" where
  "hashData api data = sha256Hex api data"

text \<open>\<open>signData\<close> has no \<open>try\<close>: an exception of \<open>sign\<close> leaves the function.\<close>

definition signData :: "crypto \<Rightarrow> string \<Rightarrow> string \<Rightarrow> crypto_error + string" where
  "signData api data privateKey =
     (let hash = bufferFromHex api (hashData api data)
      in case nodeSign api hash privateKey of
           Inl e \<Rightarrow> Inl e
         | Inr signature \<Rightarrow> Inr (toStringBase64 api signature))"

text \<open>\<open>try { body } catch (error) { handler }\<close>\<close>

definition tryCatch :: "'e + 'a \<Rightarrow> ('e \<Rightarrow> 'e + 'a) \<Rightarrow> 'e + 'a" where
  "tryCatch body handler = (case body of Inl e \<Rightarrow> handler e | Inr v \<Rightarrow> Inr v)"

definition verifySignature :: "crypto \<Rightarrow> string \<Rightarrow> string \<Rightarrow> string \<Rightarrow> crypto_error + bool" where
  "verifySignature api data signature publicKey =
     tryCatch
       (let hash = bufferFromHex api (hashData api data);
            signatureBuffer = bufferFromBase64 api signature
        in nodeVerify api hash publicKey signatureBuffer)
       (\<lambda>error. Inr False)"

text \<open>
  The contracts of the platform that the round trip rests on: decoding a Base64 encoding
  gives the bytes back, and a key pair matches when every signature made with the private
  key verifies under the public key.
\<close>

definition base64RoundTrip :: "crypto \<Rightarrow> bool" where
  "base64RoundTrip api = (\<forall>b. bufferFromBase64 api (toStringBase64 api b) = b)"

definition matchingKeyPair :: "crypto \<Rightarrow> string \<Rightarrow> string \<Rightarrow> bool" where
  "matchingKeyPair api priv pub =
     (\<forall>m. \<exists>s. nodeSign api m priv = Inr s \<and> nodeVerify api m pub s = Inr True)"

text \<open>
  A small stand-in for the platform, for the examples: a signature is the key followed by
  the message, the empty key is malformed, and the encodings are the identity.
\<close>

definition toyCrypto :: crypto where
  "toyCrypto =
     \<lparr>sha256Hex = (\<lambda>d. d), bufferFromHex = (\<lambda>s. s), bufferFromBase64 = (\<lambda>s. s),
      toStringBase64 = (\<lambda>b. b),
      nodeSign = (\<lambda>m k. if k = [] then Inl CryptoError else Inr (k @ m)),
      nodeVerify = (\<lambda>m k s. if k = [] then Inl CryptoError else Inr (s = k @ m))\<rparr>"

section \<open>The key manager (crypto/keys.ts)\<close>

record KeyPair =
  privateKey :: string
  publicKey :: string

text \<open>
  The file system as the key manager uses it: the files with their content and mode, the
  directories, and the paths on which creating or writing fails (a full disk, a directory
  that cannot be written). The process is not privileged, so the owner's permission bits
  decide whether a file can be read (\<open>0o400\<close>) or written (\<open>0o200\<close>).
\<close>

datatype fs_error = ENOENT | EACCES | EISDIR | EEXIST

record fnode =
  content :: string
  mode :: nat

record filesystem =
  files :: "string \<rightharpoonup> fnode"
  dirs :: "string set"
  locked :: "string set"

definition ownerCanRead :: "fnode \<Rightarrow> bool" where
  "ownerCanRead f = ((mode f div 256) mod 2 = 1)"

definition ownerCanWrite :: "fnode \<Rightarrow> bool" where
  "ownerCanWrite f = ((mode f div 128) mod 2 = 1)"

text \<open>\<open>fs.readFile(p, 'utf-8')\<close>\<close>

definition readFile :: "string \<Rightarrow> filesystem \<Rightarrow> fs_error + string" where
  "readFile p fs =
     (if p \<in> dirs fs then Inl EISDIR
      else case files fs p of
             None \<Rightarrow> Inl ENOENT
           | Some f \<Rightarrow> if ownerCanRead f then Inr (content f) else Inl EACCES)"

text \<open>\<open>fs.mkdir(d, {recursive: true})\<close>: no error when the directory exists.\<close>

definition mkdir :: "string \<Rightarrow> filesystem \<Rightarrow> fs_error + filesystem" where
  "mkdir d fs =
     (if files fs d \<noteq> None then Inl EEXIST
      else if d \<in> dirs fs then Inr fs
      else if d \<in> locked fs then Inl EACCES
      else Inr (fs\<lparr>dirs := insert d (dirs fs)\<rparr>))"

text \<open>
  \<open>fs.writeFile(p, data, {mode})\<close> with the default flag \<open>'w'\<close>: the file is created with
  the mode when it is missing, and truncated and rewritten (its mode kept) when it exists
  and can be written.
\<close>

definition writeFile :: "string \<Rightarrow> string \<Rightarrow> nat \<Rightarrow> filesystem \<Rightarrow> fs_error + filesystem" where
  "writeFile p data m fs =
     (if p \<in> dirs fs then Inl EISDIR
      else if p \<in> locked fs then Inl EACCES
      else case files fs p of
             None \<Rightarrow> Inr (fs\<lparr>files := (files fs)(p \<mapsto> \<lparr>content = data, mode = m\<rparr>)\<rparr>)
           | Some f \<Rightarrow>
               if ownerCanWrite f
               then Inr (fs\<lparr>files := (files fs)(p \<mapsto> f\<lparr>content := data\<rparr>)\<rparr>)
               else Inl EACCES)"

text \<open>\<open>path.join\<close> on segments that need no normalisation.\<close>

definition join :: "string \<Rightarrow> string \<Rightarrow> string" where
  "join a b = a @ ''/'' @ b"

definition VIGIL_DIR :: "string \<Rightarrow> string" where
  "VIGIL_DIR home = join home ''.vigil''"

definition KEYS_DIR :: "string \<Rightarrow> string" where
  "KEYS_DIR home = join (VIGIL_DIR home) ''keys''"

definition PRIVATE_KEY_PATH :: "string \<Rightarrow> string" where
  "PRIVATE_KEY_PATH home = join (KEYS_DIR home) ''private.pem''"

definition PUBLIC_KEY_PATH :: "string \<Rightarrow> string" where
  "PUBLIC_KEY_PATH home = join (KEYS_DIR home) ''public.pem''"

text \<open>
  \<open>generateKeys\<close>; \<open>fresh\<close> is the pair that \<open>generateKeyPairSync('ed25519', ...)\<close>
  returns. The modes are \<open>0o600\<close> and \<open>0o644\<close>.
\<close>

definition generateKeys :: "string \<Rightarrow> KeyPair \<Rightarrow> filesystem \<Rightarrow> (fs_error + KeyPair) \<times> filesystem" where
  "generateKeys home fresh fs =
     (case mkdir (KEYS_DIR home) fs of
        Inl e \<Rightarrow> (Inl e, fs)
      | Inr fs1 \<Rightarrow>
          (case writeFile (PRIVATE_KEY_PATH home) (privateKey fresh) 384 fs1 of
             Inl e \<Rightarrow> (Inl e, fs1)
           | Inr fs2 \<Rightarrow>
               (case writeFile (PUBLIC_KEY_PATH home) (publicKey fresh) 420 fs2 of
                  Inl e \<Rightarrow> (Inl e, fs2)
                | Inr fs3 \<Rightarrow> (Inr fresh, fs3))))"

text \<open>
  \<open>ensureKeysExist\<close>: both files are read inside one \<open>try\<close>; whatever fails there, the
  \<open>catch\<close> calls \<open>generateKeys\<close>.
\<close>

definition ensureKeysExist :: "string \<Rightarrow> KeyPair \<Rightarrow> filesystem \<Rightarrow> (fs_error + KeyPair) \<times> filesystem" where
  "ensureKeysExist home fresh fs =
     (case readFile (PRIVATE_KEY_PATH home) fs of
        Inl error \<Rightarrow> generateKeys home fresh fs
      | Inr priv \<Rightarrow>
          (case readFile (PUBLIC_KEY_PATH home) fs of
             Inl error \<Rightarrow> generateKeys home fresh fs
           | Inr pub \<Rightarrow> (Inr \<lparr>privateKey = priv, publicKey = pub\<rparr>, fs)))"



definition privateOnly :: filesystem where
  "privateOnly =
     \<lparr>files = [PRIVATE_KEY_PATH ''/home/u'' \<mapsto> \<lparr>content = ''OLD PRIVATE KEY'', mode = 384\<rparr>],
      dirs = {''/home/u'', KEYS_DIR ''/home/u''}, locked = {}\<rparr>"


definition pairA :: KeyPair where
  "pairA = \<lparr>privateKey = ''PRIVATE KEY A'', publicKey = ''PUBLIC KEY A''\<rparr>"


section \<open>The canonical serializer\<close>

text \<open>
  Modelled from the spec: no \<open>canonicalize\<close> function is among the sources (keys.ts hashes
  and signs a string that its caller has serialized already, and that caller is absent).
  The serializer below is the one the spec describes (4.4): the report's \<open>results\<close> are a
  mapping from domain to result, held in memory as the list of its entries in the order the
  host language keeps them; the canonical form emits the fields of the report in the order
  of the data model (timestamp, hostname, results, summary), the results in the fixed domain
  order, and the summary's fields in their declaration order. Each field is written as its
  key, the length of its value and the value, so that the encoding needs no escaping. A
  domain without a result cannot be represented. The encoding of a single domain result,
  whose shape is domain-specific, is the parameter \<open>enc\<close>.
\<close>

datatype Domain = Network | Processes | Filesystem | Dependencies | Configuration | Containers

definition domainOrder :: "Domain list" where
  "domainOrder = [Network, Processes, Filesystem, Dependencies, Configuration, Containers]"

fun domainKey :: "Domain \<Rightarrow> string" where
  "domainKey Network = ''network''"
| "domainKey Processes = ''processes''"
| "domainKey Filesystem = ''filesystem''"
| "domainKey Dependencies = ''dependencies''"
| "domainKey Configuration = ''configuration''"
| "domainKey Containers = ''containers''"

record 'r MemReport =
  memTimestamp :: string
  memHostname :: string
  memResults :: "(Domain \<times> 'r) list"
  memSummary :: Summary

datatype canon_error = Unrepresentable Domain

definition emitField :: "string \<Rightarrow> string \<Rightarrow> string" where
  "emitField key v = key @ '':'' @ showNat (length v) @ '':'' @ v @ '',''"

fun canonicalResults :: "('r \<Rightarrow> string) \<Rightarrow> (Domain \<rightharpoonup> 'r) \<Rightarrow> Domain list \<Rightarrow> canon_error + string" where
  "canonicalResults enc m [] = Inr []"
| "canonicalResults enc m (d # ds) =
     (case m d of
        None \<Rightarrow> Inl (Unrepresentable d)
      | Some r \<Rightarrow>
          (case canonicalResults enc m ds of
             Inl e \<Rightarrow> Inl e
           | Inr rest \<Rightarrow> Inr (emitField (domainKey d) (enc r) @ rest)))"

fun riskLevelName :: "RiskLevel \<Rightarrow> string" where
  "riskLevelName CRITICAL = ''CRITICAL''"
| "riskLevelName HIGH = ''HIGH''"
| "riskLevelName MEDIUM = ''MEDIUM''"
| "riskLevelName LOW = ''LOW''"
| "riskLevelName CLEAN = ''CLEAN''"

definition canonicalSummary :: "Summary \<Rightarrow> string" where
  "canonicalSummary s =
     emitField ''totalIssues'' (showNat (totalIssues s))
     @ emitField ''criticalIssues'' (showNat (criticalIssues s))
     @ emitField ''highIssues'' (showNat (highIssues s))
     @ emitField ''mediumIssues'' (showNat (mediumIssues s))
     @ emitField ''lowIssues'' (showNat (lowIssues s))
     @ emitField ''riskLevel'' (riskLevelName (riskLevel s))"

definition canonicalize :: "('r \<Rightarrow> string) \<Rightarrow> 'r MemReport \<Rightarrow> canon_error + string" where
  "canonicalize enc rep =
     (case canonicalResults enc (map_of (memResults rep)) domainOrder of
        Inl e \<Rightarrow> Inl e
      | Inr rs \<Rightarrow>
          Inr (emitField ''timestamp'' (memTimestamp rep)
               @ emitField ''hostname'' (memHostname rep)
               @ emitField ''results'' rs
               @ emitField ''summary'' (canonicalSummary (memSummary rep))))"

text \<open>
  Two in-memory reports are the same logical report when they agree on the timestamp, the
  hostname and the summary, and give every domain the same result, in whatever order their
  entries are held.
\<close>

definition sameReport :: "'r MemReport \<Rightarrow> 'r MemReport \<Rightarrow> bool" where
  "sameReport a b =
     (memTimestamp a = memTimestamp b \<and> memHostname a = memHostname b
      \<and> memSummary a = memSummary b
      \<and> list_all (\<lambda>d. map_of (memResults a) d = map_of (memResults b) d) domainOrder)"

text \<open>The same report held in two orders, for the examples.\<close>

definition memA :: "string MemReport" where
  "memA =
     \<lparr>memTimestamp = ''6003'', memHostname = ''alpha'',
      memResults = [(Network, ''n''), (Processes, ''p''), (Filesystem, ''f''),
                    (Dependencies, ''d''), (Configuration, ''c''), (Containers, ''k'')],
      memSummary = \<lparr>criticalIssues = 0, highIssues = 0, mediumIssues = 0, lowIssues = 0,
                     totalIssues = 0, riskLevel = CLEAN\<rparr>\<rparr>"

definition memB :: "string MemReport" where
  "memB = memA\<lparr>memResults :=
     [(Containers, ''k''), (Dependencies, ''d''), (Network, ''n''),
      (Configuration, ''c''), (Filesystem, ''f''), (Processes, ''p'')]\<rparr>"

section \<open>Properties of the risk aggregator\<close>

lemma count_list_filter_Medium:
  "count_list (filter (\<lambda>s. s = Medium) xs) y = (if y = Medium then count_list xs Medium else 0)"
  by (induction xs) auto

lemma count_list_filter_HM:
  "count_list (filter (\<lambda>s. s = High \<or> s = Medium) xs) y =
     (if y = High \<or> y = Medium then count_list xs y else 0)"
  by (induction xs) auto

lemma forEach_bySeverity:
  "forEach xs (\<lambda>x. bySeverity (g x)) c =
     \<lparr>criticalIssues = criticalIssues c + count_list (map g xs) Critical,
      highIssues = highIssues c + count_list (map g xs) High,
      mediumIssues = mediumIssues c + count_list (map g xs) Medium,
      lowIssues = lowIssues c + count_list (map g xs) Low\<rparr>"
  unfolding forEach_def
proof (induction xs arbitrary: c)
  case Nil
  show ?case by simp
next
  case (Cons x xs)
  show ?case
    by (simp only: fold_simps o_apply Cons.IH) (cases "g x"; simp add: bySeverity_def)
qed

lemma forEach_onlyMedium:
  "forEach xs (\<lambda>x. onlyMedium (g x)) c =
     c\<lparr>mediumIssues := mediumIssues c + count_list (map g xs) Medium\<rparr>"
  unfolding forEach_def
proof (induction xs arbitrary: c)
  case Nil
  show ?case by simp
next
  case (Cons x xs)
  show ?case
    by (simp only: fold_simps o_apply Cons.IH) (cases "g x"; simp add: onlyMedium_def)
qed

lemma forEach_highOrMedium:
  "forEach xs (\<lambda>x. highOrMedium (g x)) c =
     c\<lparr>highIssues := highIssues c + count_list (map g xs) High,
       mediumIssues := mediumIssues c + count_list (map g xs) Medium\<rparr>"
  unfolding forEach_def
proof (induction xs arbitrary: c)
  case Nil
  show ?case by simp
next
  case (Cons x xs)
  show ?case
    by (simp only: fold_simps o_apply Cons.IH) (cases "g x"; simp add: highOrMedium_def)
qed

lemma forEach_incHigh:
  "forEach xs (\<lambda>_. incHigh) c = c\<lparr>highIssues := highIssues c + length xs\<rparr>"
  unfolding forEach_def
  by (induction xs arbitrary: c) (simp_all add: incHigh_def)

lemma forEach_incLow:
  "forEach xs (\<lambda>_. incLow) c = c\<lparr>lowIssues := lowIssues c + length xs\<rparr>"
  unfolding forEach_def
  by (induction xs arbitrary: c) (simp_all add: incLow_def)

lemma forEach_nested:
  "forEach ks (\<lambda>k. forEach (h k) (\<lambda>x. bySeverity (g x))) c =
     \<lparr>criticalIssues = criticalIssues c + count_list (concat (map (map g \<circ> h) ks)) Critical,
      highIssues = highIssues c + count_list (concat (map (map g \<circ> h) ks)) High,
      mediumIssues = mediumIssues c + count_list (concat (map (map g \<circ> h) ks)) Medium,
      lowIssues = lowIssues c + count_list (concat (map (map g \<circ> h) ks)) Low\<rparr>"
proof (induction ks arbitrary: c)
  case Nil
  show ?case by (simp add: forEach_def)
next
  case (Cons k ks)
  have step: "forEach (k # ks) (\<lambda>k. forEach (h k) (\<lambda>x. bySeverity (g x))) c =
      forEach ks (\<lambda>k. forEach (h k) (\<lambda>x. bySeverity (g x)))
        (forEach (h k) (\<lambda>x. bySeverity (g x)) c)"
    by (simp add: forEach_def)
  show ?case
    by (simp only: step Cons.IH) (simp add: forEach_bySeverity)
qed


lemma countAll_closed:
  "countAll n p f d c k =
     \<lparr>criticalIssues = count_list (countedFindings n p f c k) Critical + critical (DependencyScanResult.summary d),
      highIssues = count_list (countedFindings n p f c k) High
         + (if enabled (firewallStatus n) then 0 else 1)
         + length (secretsInEnv p) + high (DependencyScanResult.summary d),
      mediumIssues = count_list (countedFindings n p f c k) Medium + moderate (DependencyScanResult.summary d),
      lowIssues = count_list (countedFindings n p f c k) Low + length (suidFiles f)
         + low (DependencyScanResult.summary d)\<rparr>"
  by (simp add: countAll_def Let_def forEach_bySeverity forEach_onlyMedium
      forEach_highOrMedium forEach_incHigh forEach_incLow forEach_nested incHigh_def
      countedFindings_def count_list_filter_Medium count_list_filter_HM)


lemma count_list_severities:
  "count_list xs Critical + count_list xs High + count_list xs Medium + count_list xs Low
     = length (xs :: Severity list)"
proof (induction xs)
  case Nil
  show ?case by simp
next
  case (Cons x xs)
  then show ?case by (cases x) simp_all
qed

lemma resolveRiskLevel_countAll:
  "riskLevel (calculateSummary n p f d c k) = resolveRiskLevel (countAll n p f d c k)"
  by (simp add: calculateSummary_def Let_def)

lemma calculateSummary_counters:
  "criticalIssues (calculateSummary n p f d c k) = criticalIssues (countAll n p f d c k)"
  "highIssues (calculateSummary n p f d c k) = highIssues (countAll n p f d c k)"
  "mediumIssues (calculateSummary n p f d c k) = mediumIssues (countAll n p f d c k)"
  "lowIssues (calculateSummary n p f d c k) = lowIssues (countAll n p f d c k)"
  by (simp_all add: calculateSummary_def Let_def)

lemma count_list_pos: "0 < count_list xs s \<longleftrightarrow> s \<in> set xs"
  by (induction xs) auto

text \<open>
  C1 (as amended). For every six results, the \<open>riskLevel\<close> of the summary is read off the
  four counters by the priority ladder: CRITICAL when \<open>criticalIssues > 0\<close>, else HIGH when
  \<open>highIssues > 0\<close>, else MEDIUM when \<open>mediumIssues > 0\<close>, else LOW when
  \<open>lowIssues > 0\<close>, else CLEAN. In terms of the results: the level is CRITICAL exactly when
  a counted finding is critical or the critical bucket of the dependency audit is not zero;
  otherwise HIGH exactly when a counted finding is high, the firewall is disabled, the
  environment holds a secret or the high bucket is not zero; otherwise MEDIUM exactly when a
  counted finding is medium or the moderate bucket is not zero; otherwise LOW exactly when a
  counted finding is low, there is a SUID/SGID file or the low bucket is not zero; otherwise
  CLEAN. In particular one critical finding in a list that is counted by severity (an open
  port, a suspicious process, a sensitive-file issue, an SSH issue, a secret in a
  configuration file, a container issue) makes the level CRITICAL whatever else the results
  hold.
\<close>

theorem riskLevel_priority_ladder:
  "riskLevel (calculateSummary n p f d c k) =
     (if criticalIssues (calculateSummary n p f d c k) > 0 then CRITICAL
      else if highIssues (calculateSummary n p f d c k) > 0 then HIGH
      else if mediumIssues (calculateSummary n p f d c k) > 0 then MEDIUM
      else if lowIssues (calculateSummary n p f d c k) > 0 then LOW
      else CLEAN)
   \<and> riskLevel (calculateSummary n p f d c k) =
     (if Critical \<in> set (countedFindings n p f c k)
           \<or> critical (DependencyScanResult.summary d) > 0 then CRITICAL
      else if High \<in> set (countedFindings n p f c k) \<or> \<not> enabled (firewallStatus n)
           \<or> secretsInEnv p \<noteq> [] \<or> high (DependencyScanResult.summary d) > 0 then HIGH
      else if Medium \<in> set (countedFindings n p f c k)
           \<or> moderate (DependencyScanResult.summary d) > 0 then MEDIUM
      else if Low \<in> set (countedFindings n p f c k) \<or> suidFiles f \<noteq> []
           \<or> low (DependencyScanResult.summary d) > 0 then LOW
      else CLEAN)
   \<and> (Critical \<in> set (countedFindings n p f c k) \<or> critical (DependencyScanResult.summary d) > 0
        \<longrightarrow> riskLevel (calculateSummary n p f d c k) = CRITICAL)"
proof (intro conjI)
  show "riskLevel (calculateSummary n p f d c k) =
     (if criticalIssues (calculateSummary n p f d c k) > 0 then CRITICAL
      else if highIssues (calculateSummary n p f d c k) > 0 then HIGH
      else if mediumIssues (calculateSummary n p f d c k) > 0 then MEDIUM
      else if lowIssues (calculateSummary n p f d c k) > 0 then LOW
      else CLEAN)"
    by (simp only: resolveRiskLevel_countAll calculateSummary_counters resolveRiskLevel_def)
next
  show byInput: "riskLevel (calculateSummary n p f d c k) =
     (if Critical \<in> set (countedFindings n p f c k)
           \<or> critical (DependencyScanResult.summary d) > 0 then CRITICAL
      else if High \<in> set (countedFindings n p f c k) \<or> \<not> enabled (firewallStatus n)
           \<or> secretsInEnv p \<noteq> [] \<or> high (DependencyScanResult.summary d) > 0 then HIGH
      else if Medium \<in> set (countedFindings n p f c k)
           \<or> moderate (DependencyScanResult.summary d) > 0 then MEDIUM
      else if Low \<in> set (countedFindings n p f c k) \<or> suidFiles f \<noteq> []
           \<or> low (DependencyScanResult.summary d) > 0 then LOW
      else CLEAN)"
    by (simp add: resolveRiskLevel_countAll resolveRiskLevel_def countAll_closed
        count_list_pos)
  then show "Critical \<in> set (countedFindings n p f c k)
        \<or> critical (DependencyScanResult.summary d) > 0
        \<longrightarrow> riskLevel (calculateSummary n p f d c k) = CRITICAL"
    by simp
qed

text \<open>
  The ladder at a concrete input: one critical port among three low ones, with 7 high,
  30 moderate and 2 low dependency vulnerabilities.
\<close>

theorem riskLevel_priority_ladder_witness:
  "Critical \<in> set (countedFindings
       (cleanNetwork\<lparr>openPorts := [unknownPort, unknownPort, telnetPort, unknownPort]\<rparr>)
       cleanProcesses cleanFilesystem cleanConfiguration cleanContainers)
   \<and> riskLevel (calculateSummary
       (cleanNetwork\<lparr>openPorts := [unknownPort, unknownPort, telnetPort, unknownPort]\<rparr>)
       cleanProcesses cleanFilesystem
       (cleanDependencies\<lparr>DependencyScanResult.summary := \<lparr>critical = 0, high = 7, moderate = 30, low = 2, info = 0\<rparr>\<rparr>)
       cleanConfiguration cleanContainers) = CRITICAL"
proof -
  have m: "Critical \<in> set (countedFindings
       (cleanNetwork\<lparr>openPorts := [unknownPort, unknownPort, telnetPort, unknownPort]\<rparr>)
       cleanProcesses cleanFilesystem cleanConfiguration cleanContainers)"
    by (simp add: countedFindings_def cleanNetwork_def telnetPort_def)
  from m riskLevel_priority_ladder [of
       "cleanNetwork\<lparr>openPorts := [unknownPort, unknownPort, telnetPort, unknownPort]\<rparr>"
       cleanProcesses cleanFilesystem
       "cleanDependencies\<lparr>DependencyScanResult.summary := \<lparr>critical = 0, high = 7, moderate = 30, low = 2, info = 0\<rparr>\<rparr>"
       cleanConfiguration cleanContainers]
  show ?thesis by blast
qed

text \<open>
  C1 as stated fails: a critical entry among the exposed secret files, the world-writable
  files or the privileged processes of an otherwise clean result set is not counted, and
  the level stays CLEAN; a critical entry among the SUID/SGID files counts as one low
  issue, and the level is LOW.
\<close>

theorem critical_finding_counterexample:
  "FileIssue.severity criticalFile = Critical
   \<and> ProcessInfo.severity criticalProcess = Critical
   \<and> riskLevel (calculateSummary cleanNetwork cleanProcesses
        (cleanFilesystem\<lparr>exposedSecrets := [criticalFile]\<rparr>)
        cleanDependencies cleanConfiguration cleanContainers) = CLEAN
   \<and> riskLevel (calculateSummary cleanNetwork cleanProcesses
        (cleanFilesystem\<lparr>worldWritableFiles := [criticalFile]\<rparr>)
        cleanDependencies cleanConfiguration cleanContainers) = CLEAN
   \<and> riskLevel (calculateSummary cleanNetwork
        (cleanProcesses\<lparr>privilegedProcesses := [criticalProcess]\<rparr>) cleanFilesystem
        cleanDependencies cleanConfiguration cleanContainers) = CLEAN
   \<and> riskLevel (calculateSummary cleanNetwork cleanProcesses
        (cleanFilesystem\<lparr>suidFiles := [criticalFile]\<rparr>)
        cleanDependencies cleanConfiguration cleanContainers) = LOW"
  by (simp add: calculateSummary_def countAll_def Let_def forEach_def resolveRiskLevel_def
      onlyMedium_def highOrMedium_def incLow_def criticalFile_def criticalProcess_def
      cleanNetwork_def cleanProcesses_def cleanFilesystem_def cleanDependencies_def
      cleanConfiguration_def cleanContainers_def)

text \<open>
  C2 (as amended). The summary equals the reference counting function applied to the
  findings that \<open>calculateSummary\<close> counts: every open port, suspicious process,
  sensitive-file issue, SSH issue, configuration secret and container issue increments the
  counter of its severity; a world-writable file counts when it is medium and an exposed
  secret file when it is high or medium; privileged processes are not counted; a disabled
  firewall adds one high, the dependency buckets are added verbatim, each SUID/SGID file adds
  one low and each secret of the environment one high. \<open>totalIssues\<close> is the sum of the four
  counters, which is the number of counted inputs.
\<close>

theorem calculateSummary_counts:
  "calculateSummary n p f d c k = referenceSummary (countedFindings n p f c k) n p f d
   \<and> totalIssues (calculateSummary n p f d c k) =
       criticalIssues (calculateSummary n p f d c k) + highIssues (calculateSummary n p f d c k)
       + mediumIssues (calculateSummary n p f d c k) + lowIssues (calculateSummary n p f d c k)
   \<and> totalIssues (calculateSummary n p f d c k) = countedInputs n p f d c k"
proof (intro conjI)
  show "calculateSummary n p f d c k = referenceSummary (countedFindings n p f c k) n p f d"
    by (simp add: calculateSummary_def referenceSummary_def Let_def countAll_closed
        resolveRiskLevel_def)
next
  show "totalIssues (calculateSummary n p f d c k) =
       criticalIssues (calculateSummary n p f d c k) + highIssues (calculateSummary n p f d c k)
       + mediumIssues (calculateSummary n p f d c k) + lowIssues (calculateSummary n p f d c k)"
    by (simp add: calculateSummary_def Let_def)
next
  have "totalIssues (calculateSummary n p f d c k) =
      (count_list (countedFindings n p f c k) Critical
       + count_list (countedFindings n p f c k) High
       + count_list (countedFindings n p f c k) Medium
       + count_list (countedFindings n p f c k) Low)
      + (if enabled (firewallStatus n) then 0 else 1) + length (secretsInEnv p)
      + length (suidFiles f)
      + (critical (DependencyScanResult.summary d) + high (DependencyScanResult.summary d) + moderate (DependencyScanResult.summary d) + low (DependencyScanResult.summary d))"
    by (simp add: calculateSummary_def Let_def countAll_closed)
  then show "totalIssues (calculateSummary n p f d c k) = countedInputs n p f d c k"
    by (simp only: count_list_severities countedInputs_def)
qed

text \<open>
  C2 as stated fails: with one privileged (root) process reported, a medium Finding of the
  process domain, and nothing else, the reference function of the spec counts one medium
  issue, while \<open>calculateSummary\<close> counts none and reports CLEAN.
\<close>

theorem summary_reference_counterexample:
  "mediumIssues (calculateSummary cleanNetwork
       (cleanProcesses\<lparr>privilegedProcesses := [rootProcess]\<rparr>)
       cleanFilesystem cleanDependencies cleanConfiguration cleanContainers) = 0
   \<and> riskLevel (calculateSummary cleanNetwork
       (cleanProcesses\<lparr>privilegedProcesses := [rootProcess]\<rparr>)
       cleanFilesystem cleanDependencies cleanConfiguration cleanContainers) = CLEAN
   \<and> mediumIssues (summarize_spec cleanNetwork
       (cleanProcesses\<lparr>privilegedProcesses := [rootProcess]\<rparr>)
       cleanFilesystem cleanDependencies cleanConfiguration cleanContainers) = 1
   \<and> calculateSummary cleanNetwork
       (cleanProcesses\<lparr>privilegedProcesses := [rootProcess]\<rparr>)
       cleanFilesystem cleanDependencies cleanConfiguration cleanContainers
     \<noteq> summarize_spec cleanNetwork
       (cleanProcesses\<lparr>privilegedProcesses := [rootProcess]\<rparr>)
       cleanFilesystem cleanDependencies cleanConfiguration cleanContainers"
  by (simp add: calculateSummary_def countAll_def Let_def forEach_def summarize_spec_def
      referenceSummary_def allFindings_def resolveRiskLevel_def incHigh_def
      cleanNetwork_def cleanProcesses_def cleanFilesystem_def cleanDependencies_def
      cleanConfiguration_def cleanContainers_def rootProcess_def)

section \<open>Properties of the dependency scanner\<close>

lemma fold_push: "fold (\<lambda>e vs. vs @ [g e]) es acc = acc @ map g es"
  by (induction es arbitrary: acc) simp_all

lemma parsedVulnerabilities_length:
  "length (parsedVulnerabilities a) =
     (case auditVulnerabilities a of None \<Rightarrow> 0 | Some es \<Rightarrow> length es)"
  by (simp add: parsedVulnerabilities_def fold_push split: option.splits)

lemma auditResult_limit:
  "length (vulnerabilities (auditResult a)) = min 20 (totalVulnerabilities (auditResult a))"
  "totalVulnerabilities (auditResult a) = length (parsedVulnerabilities a)"
  "vulnerabilities (auditResult a) = take 20 (parsedVulnerabilities a)"
  by (simp_all add: auditResult_def Let_def min_def)

lemma emptyResult_limit:
  "vulnerabilities (emptyResult b) = []" "totalVulnerabilities (emptyResult b) = 0"
  by (simp_all add: emptyResult_def)

lemma scanDependencies_cases:
  assumes "scanDependencies parse env = Resolved r"
  shows "(\<exists>b. r = emptyResult b) \<or> (\<exists>a. r = auditResult a)"
  using assms
  by (auto simp add: scanDependencies_def split: option.splits if_splits exec_result.splits)

text \<open>
  C10. Whatever npm audit prints, the result of \<open>scanDependencies\<close> lists at most 20
  vulnerabilities: the list is the first 20 of the parsed entries, while
  \<open>totalVulnerabilities\<close> is the number of all parsed entries, the entries of the report's
  \<open>vulnerabilities\<close> object, and so may exceed the length of the list.
\<close>

theorem scanDependencies_limit:
  assumes "scanDependencies parse env = Resolved r"
  shows "length (vulnerabilities r) \<le> 20
    \<and> length (vulnerabilities r) = min 20 (totalVulnerabilities r)
    \<and> (\<forall>out a. cwd env \<noteq> None \<and> packageJsonExists env
          \<and> (npmAudit env = ExecOk out \<or> npmAudit env = ExecError (Some out) \<and> out \<noteq> [])
          \<and> parse out = Some a
        \<longrightarrow> totalVulnerabilities r
              = (case auditVulnerabilities a of None \<Rightarrow> 0 | Some es \<Rightarrow> length es)
          \<and> vulnerabilities r = take 20 (parsedVulnerabilities a))"
proof (intro conjI allI impI)
  from scanDependencies_cases [OF assms]
  show eq: "length (vulnerabilities r) = min 20 (totalVulnerabilities r)"
    by (auto simp add: auditResult_limit(1) emptyResult_limit)
  then show "length (vulnerabilities r) \<le> 20"
    by simp
next
  fix out a
  assume h: "cwd env \<noteq> None \<and> packageJsonExists env
      \<and> (npmAudit env = ExecOk out \<or> npmAudit env = ExecError (Some out) \<and> out \<noteq> [])
      \<and> parse out = Some a"
  with assms have r: "r = auditResult a"
    by (auto simp add: scanDependencies_def split: option.splits)
  show "totalVulnerabilities r = (case auditVulnerabilities a of None \<Rightarrow> 0 | Some es \<Rightarrow> length es)"
    by (simp only: r auditResult_limit(2) parsedVulnerabilities_length)
  show "vulnerabilities r = take 20 (parsedVulnerabilities a)"
    by (simp only: r auditResult_limit(3))
qed

text \<open>A report with 21 entries: 20 are listed, the total is 21.\<close>

theorem scanDependencies_limit_witness:
  "scanDependencies (\<lambda>_. Some (reportOf 21))
      \<lparr>cwd = Some ''/app'', packageJsonExists = True, npmAudit = ExecError (Some ''{}'')\<rparr>
     = Resolved (auditResult (reportOf 21))
   \<and> length (vulnerabilities (auditResult (reportOf 21))) = 20
   \<and> totalVulnerabilities (auditResult (reportOf 21)) = 21"
proof -
  have run: "scanDependencies (\<lambda>_. Some (reportOf 21))
      \<lparr>cwd = Some ''/app'', packageJsonExists = True, npmAudit = ExecError (Some ''{}'')\<rparr>
     = Resolved (auditResult (reportOf 21))"
    by (simp add: scanDependencies_def)
  from scanDependencies_limit [OF run]
  have A: "length (vulnerabilities (auditResult (reportOf 21)))
          = min 20 (totalVulnerabilities (auditResult (reportOf 21)))"
    and B: "\<forall>out a. cwd \<lparr>cwd = Some ''/app'', packageJsonExists = True,
                 npmAudit = ExecError (Some ''{}'')\<rparr> \<noteq> None
          \<and> packageJsonExists \<lparr>cwd = Some ''/app'', packageJsonExists = True,
                 npmAudit = ExecError (Some ''{}'')\<rparr>
          \<and> (npmAudit \<lparr>cwd = Some ''/app'', packageJsonExists = True,
                 npmAudit = ExecError (Some ''{}'')\<rparr> = ExecOk out
             \<or> npmAudit \<lparr>cwd = Some ''/app'', packageJsonExists = True,
                 npmAudit = ExecError (Some ''{}'')\<rparr> = ExecError (Some out) \<and> out \<noteq> [])
          \<and> (\<lambda>_. Some (reportOf 21)) out = Some a
        \<longrightarrow> totalVulnerabilities (auditResult (reportOf 21))
              = (case auditVulnerabilities a of None \<Rightarrow> 0 | Some es \<Rightarrow> length es)
          \<and> vulnerabilities (auditResult (reportOf 21)) = take 20 (parsedVulnerabilities a)"
    by blast+
  have "totalVulnerabilities (auditResult (reportOf 21))
      = (case auditVulnerabilities (reportOf 21) of None \<Rightarrow> 0 | Some es \<Rightarrow> length es)"
    using B [rule_format, of "''{}''" "reportOf 21"] by simp
  then have C: "totalVulnerabilities (auditResult (reportOf 21)) = 21"
    by (simp add: reportOf_def)
  show ?thesis
    using run A C by simp
qed

section \<open>Properties of the orchestrator\<close>

lemma showNat_6003: "showNat 6003 = ''6003''"
  by (simp add: showNat.simps digit_def)

lemma trim_alpha: "trim alphaOut = ''alpha''" "trim betaOut = ''beta''"
  by (simp_all add: trim_def trimStart_def trimEnd_def whiteSpace_def startsWith_def
      alphaOut_def betaOut_def)

lemma calculateSummary_clean:
  "calculateSummary cleanNetwork cleanProcesses cleanFilesystem cleanDependencies
     cleanConfiguration cleanContainers =
   \<lparr>criticalIssues = 0, highIssues = 0, mediumIssues = 0, lowIssues = 0,
                  totalIssues = 0, riskLevel = CLEAN\<rparr>"
  by (simp add: calculateSummary_def countAll_def Let_def forEach_def resolveRiskLevel_def
      cleanNetwork_def cleanProcesses_def cleanFilesystem_def cleanDependencies_def
      cleanConfiguration_def cleanContainers_def)

lemma both_Resolved:
  "both x y = Resolved v \<longleftrightarrow> (\<exists>a b. x = Resolved a \<and> y = Resolved b \<and> v = (a, b))"
  by (cases x; cases y) auto

lemma both_Rejected: "both x y = Rejected \<longleftrightarrow> x = Rejected \<or> y = Rejected"
  by (cases x; cases y) auto

lemma promiseAll_Resolved:
  "promiseAll a b c d e f = Resolved v \<longleftrightarrow>
     (\<exists>a' b' c' d' e' f'. a = Resolved a' \<and> b = Resolved b' \<and> c = Resolved c'
        \<and> d = Resolved d' \<and> e = Resolved e' \<and> f = Resolved f'
        \<and> v = (a', b', c', d', e', f'))"
  by (auto simp add: promiseAll_def both_Resolved)

lemma promiseAll_Rejected:
  "promiseAll a b c d e f = Rejected \<longleftrightarrow>
     a = Rejected \<or> b = Rejected \<or> c = Rejected \<or> d = Rejected \<or> e = Rejected \<or> f = Rejected"
  by (simp add: promiseAll_def both_Rejected)

lemma getHostname_cases:
  "getHostname c = Pending \<longleftrightarrow> c = Pending" "getHostname c \<noteq> Rejected"
  by (cases c; simp add: getHostname_def)+

lemma runFullScan_Resolved:
  "runFullScan t run w = Resolved (r, w') \<longleftrightarrow>
     (\<exists>host nw pr fi de co ct.
        getHostname (hostnameCmd w) = Resolved host
        \<and> networkP run = Resolved nw \<and> processesP run = Resolved pr
        \<and> filesystemP run = Resolved fi \<and> dependenciesP run = Resolved de
        \<and> configurationP run = Resolved co \<and> containersP run = Resolved ct
        \<and> w' = advance (scannersWait run) (advance (hostnameWait run) w)
        \<and> r = \<lparr>timestamp = t (clock w'), hostname = host,
                 network = nw, processes = pr, filesystem = fi, dependencies = de,
                 configuration = co, containers = ct,
                 summary = calculateSummary nw pr fi de co ct\<rparr>)"
  (is "?L \<longleftrightarrow> ?R")
proof (cases "getHostname (hostnameCmd w)")
  case (Resolved host)
  note host = this
  let ?all = "promiseAll (networkP run) (processesP run) (filesystemP run)
                  (dependenciesP run) (configurationP run) (containersP run)"
  have unsettled: "\<not> ?R" if "\<And>v. ?all \<noteq> Resolved v"
  proof
    assume ?R
    then obtain nw pr fi de co ct where
      "networkP run = Resolved nw" "processesP run = Resolved pr"
      "filesystemP run = Resolved fi" "dependenciesP run = Resolved de"
      "configurationP run = Resolved co" "containersP run = Resolved ct"
      by blast
    then have "?all = Resolved (nw, pr, fi, de, co, ct)"
      by (simp add: promiseAll_Resolved)
    with that show False by blast
  qed
  show ?thesis
  proof (cases ?all)
    case (Resolved v)
    then obtain nw pr fi de co ct where
      v: "networkP run = Resolved nw" "processesP run = Resolved pr"
         "filesystemP run = Resolved fi" "dependenciesP run = Resolved de"
         "configurationP run = Resolved co" "containersP run = Resolved ct"
         "v = (nw, pr, fi, de, co, ct)"
      by (auto simp add: promiseAll_Resolved)
    show ?thesis
      using host Resolved v by (auto simp add: runFullScan_def Let_def)
  next
    case Rejected
    then have "\<not> ?L" using host by (simp add: runFullScan_def Let_def)
    moreover have "\<not> ?R" using Rejected by (intro unsettled) simp
    ultimately show ?thesis by blast
  next
    case Pending
    then have "\<not> ?L" using host by (simp add: runFullScan_def Let_def)
    moreover have "\<not> ?R" using Pending by (intro unsettled) simp
    ultimately show ?thesis by blast
  qed
next
  case Rejected
  then show ?thesis by (simp add: getHostname_cases)
next
  case Pending
  then show ?thesis by (simp add: runFullScan_def)
qed

lemma runFullScan_Rejected:
  "runFullScan t run w = Rejected \<longleftrightarrow>
     hostnameCmd w \<noteq> Pending
     \<and> (networkP run = Rejected \<or> processesP run = Rejected \<or> filesystemP run = Rejected
        \<or> dependenciesP run = Rejected \<or> configurationP run = Rejected
        \<or> containersP run = Rejected)"
proof (cases "getHostname (hostnameCmd w)")
  case (Resolved host)
  then have np: "hostnameCmd w \<noteq> Pending"
    by (auto simp add: getHostname_def)
  show ?thesis
    using Resolved np promiseAll_Rejected [of "networkP run" "processesP run" "filesystemP run"
        "dependenciesP run" "configurationP run" "containersP run"]
    by (cases "promiseAll (networkP run) (processesP run) (filesystemP run)
                  (dependenciesP run) (configurationP run) (containersP run)")
       (auto simp add: runFullScan_def Let_def)
next
  case Rejected
  then show ?thesis by (simp add: getHostname_cases)
next
  case Pending
  then have "hostnameCmd w = Pending" by (simp add: getHostname_cases)
  with Pending show ?thesis by (simp add: runFullScan_def)
qed


lemma showNat_11006: "showNat 11006 = ''11006''"
  by (simp add: showNat.simps digit_def)

lemma cleanRun_world0:
  "runFullScan showNat cleanRun world0 = Resolved (report0, cleanWorld)"
  by (simp add: runFullScan_def cleanRun_def world0_def getHostname_def
      trim_alpha promiseAll_def advance_def Let_def calculateSummary_clean showNat_6003
      report0_def cleanWorld_def)

lemma cleanRun_cleanWorld:
  "runFullScan showNat cleanRun cleanWorld = Resolved (report1, cleanWorld1)"
  by (simp add: runFullScan_def cleanRun_def cleanWorld_def getHostname_def
      trim_alpha promiseAll_def advance_def Let_def calculateSummary_clean showNat_11006
      report0_def report1_def cleanWorld1_def)

text \<open>
  C3 (as amended). \<open>runFullScan\<close> applies no timeout and substitutes no degraded result:
  it returns a report exactly when the \<open>hostname\<close> command has settled and all six
  scanners have returned; the report then carries each scanner's result unchanged, with the
  summary computed from these six results. It fails exactly when the \<open>hostname\<close> command
  has settled and one of the scanners fails.
\<close>

theorem runFullScan_all_or_nothing:
  "((\<exists>r' w''. runFullScan t run w = Resolved (r', w'')) \<longleftrightarrow>
      hostnameCmd w \<noteq> Pending
      \<and> (\<exists>nw. networkP run = Resolved nw) \<and> (\<exists>pr. processesP run = Resolved pr)
      \<and> (\<exists>fi. filesystemP run = Resolved fi) \<and> (\<exists>de. dependenciesP run = Resolved de)
      \<and> (\<exists>co. configurationP run = Resolved co) \<and> (\<exists>ct. containersP run = Resolved ct))
   \<and> (runFullScan t run w = Resolved (r, w') \<longrightarrow>
        networkP run = Resolved (network r) \<and> processesP run = Resolved (processes r)
        \<and> filesystemP run = Resolved (filesystem r)
        \<and> dependenciesP run = Resolved (dependencies r)
        \<and> configurationP run = Resolved (configuration r)
        \<and> containersP run = Resolved (containers r)
        \<and> summary r = calculateSummary (network r) (processes r) (filesystem r)
                         (dependencies r) (configuration r) (containers r))
   \<and> (runFullScan t run w = Rejected \<longleftrightarrow>
        hostnameCmd w \<noteq> Pending
        \<and> (networkP run = Rejected \<or> processesP run = Rejected \<or> filesystemP run = Rejected
           \<or> dependenciesP run = Rejected \<or> configurationP run = Rejected
           \<or> containersP run = Rejected))"
proof (intro conjI)
  have host: "(\<exists>h. getHostname (hostnameCmd w) = Resolved h) \<longleftrightarrow> hostnameCmd w \<noteq> Pending"
    by (cases "hostnameCmd w") (simp_all add: getHostname_def)
  show "(\<exists>r' w''. runFullScan t run w = Resolved (r', w'')) \<longleftrightarrow>
      hostnameCmd w \<noteq> Pending
      \<and> (\<exists>nw. networkP run = Resolved nw) \<and> (\<exists>pr. processesP run = Resolved pr)
      \<and> (\<exists>fi. filesystemP run = Resolved fi) \<and> (\<exists>de. dependenciesP run = Resolved de)
      \<and> (\<exists>co. configurationP run = Resolved co) \<and> (\<exists>ct. containersP run = Resolved ct)"
    unfolding runFullScan_Resolved host [symmetric] by blast
next
  show "runFullScan t run w = Resolved (r, w') \<longrightarrow>
        networkP run = Resolved (network r) \<and> processesP run = Resolved (processes r)
        \<and> filesystemP run = Resolved (filesystem r)
        \<and> dependenciesP run = Resolved (dependencies r)
        \<and> configurationP run = Resolved (configuration r)
        \<and> containersP run = Resolved (containers r)
        \<and> summary r = calculateSummary (network r) (processes r) (filesystem r)
                         (dependencies r) (configuration r) (containers r)"
    unfolding runFullScan_Resolved by auto
next
  show "runFullScan t run w = Rejected \<longleftrightarrow>
        hostnameCmd w \<noteq> Pending
        \<and> (networkP run = Rejected \<or> processesP run = Rejected \<or> filesystemP run = Rejected
           \<or> dependenciesP run = Rejected \<or> configurationP run = Rejected
           \<or> containersP run = Rejected)"
    by (rule runFullScan_Rejected)
qed

theorem runFullScan_all_or_nothing_witness:
  "runFullScan showNat cleanRun world0 = Resolved (report0, cleanWorld)
   \<and> dependenciesP cleanRun = Resolved (dependencies report0)
   \<and> summary report0 = calculateSummary (network report0) (processes report0)
        (filesystem report0) (dependencies report0) (configuration report0)
        (containers report0)"
  using runFullScan_all_or_nothing [of showNat cleanRun world0 report0 cleanWorld]
    cleanRun_world0
  by blast

text \<open>
  C3 as stated fails: when the dependency scanner fails (its \<open>process.cwd()\<close> throws) the
  whole scan fails, and when the network scanner never returns the scan never returns;
  in neither case is there a report.
\<close>

theorem failure_isolation_counterexample:
  "runFullScan showNat brokenRun world0 = Rejected
   \<and> runFullScan showNat hungRun world0 = Pending"
  by (simp add: runFullScan_def brokenRun_def hungRun_def cleanRun_def world0_def
      getHostname_def promiseAll_def scanDependencies_def)

text \<open>
  C9 (as amended). The report's timestamp is the clock at the point where all six results
  have been collected, while its hostname is what \<open>getHostname\<close> returned at the start
  of the scan, before the scanners were launched. The clock only advances during a scan, so
  a scan started after this one has returned is stamped with a later (or equal) instant.
\<close>

theorem runFullScan_stamps:
  assumes "runFullScan t run w = Resolved (r, w')"
  shows "timestamp r = t (clock w')
    \<and> clock w' = clock w + elapsed (hostnameWait run) + elapsed (scannersWait run)
    \<and> getHostname (hostnameCmd w) = Resolved (hostname r)
    \<and> (\<forall>w1 run2 r2 w2.
          clock w' \<le> clock w1 \<and> runFullScan t run2 w1 = Resolved (r2, w2)
          \<longrightarrow> timestamp r2 = t (clock w2) \<and> clock w' \<le> clock w2)"
proof -
  have stamp: "timestamp r0 = t (clock v')
      \<and> clock v' = clock v + elapsed (hostnameWait rn) + elapsed (scannersWait rn)
      \<and> getHostname (hostnameCmd v) = Resolved (hostname r0)"
    if "runFullScan t rn v = Resolved (r0, v')" for rn v r0 v'
    using that unfolding runFullScan_Resolved by (auto simp add: advance_def)
  have later: "timestamp r2 = t (clock w2) \<and> clock w' \<le> clock w2"
    if "clock w' \<le> clock w1 \<and> runFullScan t run2 w1 = Resolved (r2, w2)"
    for w1 run2 r2 w2
    using that stamp [of run2 w1 r2 w2] by simp
  show ?thesis
    using stamp [OF assms] later by blast
qed

theorem runFullScan_stamps_witness:
  "runFullScan showNat cleanRun world0 = Resolved (report0, cleanWorld)
   \<and> runFullScan showNat cleanRun cleanWorld = Resolved (report1, cleanWorld1)
   \<and> timestamp report0 = showNat (clock cleanWorld)
   \<and> getHostname (hostnameCmd world0) = Resolved (hostname report0)
   \<and> timestamp report1 = showNat (clock cleanWorld1)
   \<and> clock cleanWorld \<le> clock cleanWorld1"
proof -
  have "clock cleanWorld \<le> clock cleanWorld"
    by simp
  with runFullScan_stamps [OF cleanRun_world0] cleanRun_world0 cleanRun_cleanWorld
  show ?thesis by blast
qed

text \<open>
  C9 as stated fails for the hostname: when the host is renamed while the scanners run,
  the report carries the name read at the start of the scan, not the name at the point
  where the results are collected.
\<close>

theorem hostname_stamp_counterexample:
  "runFullScan showNat renamedRun world0 = Resolved (report0, renamedWorld)
   \<and> hostname report0 = ''alpha''
   \<and> getHostname (hostnameCmd renamedWorld) = Resolved ''beta''"
  by (simp add: runFullScan_def renamedRun_def cleanRun_def world0_def getHostname_def
      trim_alpha promiseAll_def advance_def Let_def calculateSummary_clean showNat_6003
      report0_def renamedWorld_def)

section \<open>Properties of signing and verification\<close>

text \<open>
  C4. Round trip: when the platform's Base64 decoding inverts its encoding and the key pair
  matches (signatures made with the private key verify under the public key), the signature
  that \<open>signData\<close> returns for some data is accepted by \<open>verifySignature\<close> for the same
  data and the public key.
\<close>

theorem sign_verify_round_trip:
  assumes "base64RoundTrip api" and "matchingKeyPair api priv pub"
  shows "\<exists>sg. signData api data priv = Inr sg \<and> verifySignature api data sg pub = Inr True"
proof -
  let ?hash = "bufferFromHex api (hashData api data)"
  from assms(2) obtain s where
    s: "nodeSign api ?hash priv = Inr s" "nodeVerify api ?hash pub s = Inr True"
    unfolding matchingKeyPair_def by blast
  have signed: "signData api data priv = Inr (toStringBase64 api s)"
    by (simp add: signData_def Let_def s(1))
  from assms(1) have decoded: "bufferFromBase64 api (toStringBase64 api s) = s"
    unfolding base64RoundTrip_def by blast
  have "verifySignature api data (toStringBase64 api s) pub = Inr True"
    by (simp add: verifySignature_def tryCatch_def Let_def decoded s(2))
  with signed show ?thesis by blast
qed

theorem sign_verify_round_trip_witness:
  "base64RoundTrip toyCrypto \<and> matchingKeyPair toyCrypto ''k'' ''k''
   \<and> signData toyCrypto ''report'' ''k'' = Inr ''kreport''
   \<and> verifySignature toyCrypto ''report'' ''kreport'' ''k'' = Inr True"
proof -
  have b: "base64RoundTrip toyCrypto"
    by (simp add: base64RoundTrip_def toyCrypto_def)
  have m: "matchingKeyPair toyCrypto ''k'' ''k''"
    by (simp add: matchingKeyPair_def toyCrypto_def)
  have s: "signData toyCrypto ''report'' ''k'' = Inr ''kreport''"
    by (simp add: signData_def hashData_def toyCrypto_def)
  from sign_verify_round_trip [OF b m, of "''report''"] s
  have "verifySignature toyCrypto ''report'' ''kreport'' ''k'' = Inr True"
    by simp
  with b m s show ?thesis by simp
qed

text \<open>
  C6. For every data, signature and public key, and whatever the platform does,
  \<open>verifySignature\<close> returns a boolean and never an exception: it returns \<open>true\<close> exactly
  when the platform's \<open>verify\<close> accepts the signature for the digest of the data, and
  \<open>false\<close> when \<open>verify\<close> rejects it or throws (malformed key or signature).
\<close>

theorem verifySignature_never_throws:
  "(\<exists>b. verifySignature api data sg pk = Inr b)
   \<and> (verifySignature api data sg pk = Inr True \<longleftrightarrow>
        nodeVerify api (bufferFromHex api (hashData api data)) pk (bufferFromBase64 api sg)
          = Inr True)
   \<and> ((\<exists>e. nodeVerify api (bufferFromHex api (hashData api data)) pk
               (bufferFromBase64 api sg) = Inl e)
        \<longrightarrow> verifySignature api data sg pk = Inr False)"
  by (cases "nodeVerify api (bufferFromHex api (hashData api data)) pk
               (bufferFromBase64 api sg)")
     (auto simp add: verifySignature_def tryCatch_def Let_def)

theorem verifySignature_never_throws_witness:
  "nodeVerify toyCrypto (bufferFromHex toyCrypto (hashData toyCrypto ''report'')) []
       (bufferFromBase64 toyCrypto ''kreport'') = Inl CryptoError
   \<and> verifySignature toyCrypto ''report'' ''kreport'' [] = Inr False"
proof -
  have t: "nodeVerify toyCrypto (bufferFromHex toyCrypto (hashData toyCrypto ''report'')) []
       (bufferFromBase64 toyCrypto ''kreport'') = Inl CryptoError"
    by (simp add: toyCrypto_def)
  with verifySignature_never_throws [of toyCrypto "''report''" "''kreport''" "[]"]
  show ?thesis by blast
qed

section \<open>Properties of the key manager\<close>

lemma key_paths_differ:
  "PRIVATE_KEY_PATH home \<noteq> PUBLIC_KEY_PATH home"
  "PUBLIC_KEY_PATH home \<noteq> PRIVATE_KEY_PATH home"
  "PRIVATE_KEY_PATH home \<noteq> KEYS_DIR home"
  "PUBLIC_KEY_PATH home \<noteq> KEYS_DIR home"
  "KEYS_DIR home \<noteq> PRIVATE_KEY_PATH home"
  "KEYS_DIR home \<noteq> PUBLIC_KEY_PATH home"
  by (simp_all add: PRIVATE_KEY_PATH_def PUBLIC_KEY_PATH_def join_def)

lemma home_u_paths:
  "PRIVATE_KEY_PATH ''/home/u'' \<noteq> ''/home/u''" "PUBLIC_KEY_PATH ''/home/u'' \<noteq> ''/home/u''"
  "KEYS_DIR ''/home/u'' \<noteq> ''/home/u''" "''/home/u'' \<noteq> KEYS_DIR ''/home/u''"
  by (simp_all add: PRIVATE_KEY_PATH_def PUBLIC_KEY_PATH_def KEYS_DIR_def VIGIL_DIR_def
      join_def)










text \<open>
  C5 fails on the code: with the private key file present and the public key file missing,
  \<open>ensureKeysExist\<close> takes the failed read for the absence of both keys, generates a new
  pair and overwrites the private key file.
\<close>

theorem ensureKeysExist_overwrites_private_key:
  "readFile (PRIVATE_KEY_PATH ''/home/u'') privateOnly = Inr ''OLD PRIVATE KEY''
   \<and> fst (ensureKeysExist ''/home/u'' pairA privateOnly) = Inr pairA
   \<and> readFile (PRIVATE_KEY_PATH ''/home/u'') (snd (ensureKeysExist ''/home/u'' pairA privateOnly))
       = Inr ''PRIVATE KEY A''"
  by (simp add: ensureKeysExist_def generateKeys_def readFile_def mkdir_def writeFile_def
      privateOnly_def pairA_def key_paths_differ home_u_paths ownerCanRead_def
      ownerCanWrite_def)

section \<open>Properties of the canonical serializer\<close>

lemma canonicalResults_cong:
  "(\<And>d. d \<in> set ds \<Longrightarrow> m d = m' d) \<Longrightarrow> canonicalResults enc m ds = canonicalResults enc m' ds"
proof (induction ds)
  case Nil
  show ?case by simp
next
  case (Cons a ds)
  have "canonicalResults enc m ds = canonicalResults enc m' ds"
    by (rule Cons.IH) (simp add: Cons.prems)
  moreover have "m a = m' a"
    by (simp add: Cons.prems)
  ultimately show ?case by (simp split: option.splits)
qed

lemma canonicalResults_domainOrder:
  "canonicalResults enc m domainOrder = Inr out \<longleftrightarrow>
     (\<exists>n p f d c k. m Network = Some n \<and> m Processes = Some p \<and> m Filesystem = Some f
        \<and> m Dependencies = Some d \<and> m Configuration = Some c \<and> m Containers = Some k
        \<and> out = emitField ''network'' (enc n) @ emitField ''processes'' (enc p)
              @ emitField ''filesystem'' (enc f) @ emitField ''dependencies'' (enc d)
              @ emitField ''configuration'' (enc c) @ emitField ''containers'' (enc k))"
  by (auto simp add: domainOrder_def split: option.splits)

text \<open>
  C7. The canonical form is a function of the logical report: two in-memory
  representations of the same report, whatever the order in which they hold the entries of
  the results mapping, have the same canonical form (or are both unrepresentable); and a
  canonical form lists the results in the fixed order network, processes, filesystem,
  dependencies, configuration, containers, between the hostname and the summary.
\<close>

theorem canonicalize_order_stable:
  "(sameReport a b \<longrightarrow> canonicalize enc a = canonicalize enc b)
   \<and> (canonicalize enc a = Inr out \<longrightarrow>
        (\<exists>n p f d c k.
           map_of (memResults a) Network = Some n \<and> map_of (memResults a) Processes = Some p
           \<and> map_of (memResults a) Filesystem = Some f
           \<and> map_of (memResults a) Dependencies = Some d
           \<and> map_of (memResults a) Configuration = Some c
           \<and> map_of (memResults a) Containers = Some k
           \<and> out = emitField ''timestamp'' (memTimestamp a)
                @ emitField ''hostname'' (memHostname a)
                @ emitField ''results''
                    (emitField ''network'' (enc n) @ emitField ''processes'' (enc p)
                     @ emitField ''filesystem'' (enc f) @ emitField ''dependencies'' (enc d)
                     @ emitField ''configuration'' (enc c) @ emitField ''containers'' (enc k))
                @ emitField ''summary'' (canonicalSummary (memSummary a))))"
proof (intro conjI impI)
  assume same: "sameReport a b"
  then have "canonicalResults enc (map_of (memResults a)) domainOrder
      = canonicalResults enc (map_of (memResults b)) domainOrder"
    by (intro canonicalResults_cong) (simp add: sameReport_def list_all_iff)
  with same show "canonicalize enc a = canonicalize enc b"
    by (auto simp add: canonicalize_def sameReport_def split: sum.splits)
next
  assume out: "canonicalize enc a = Inr out"
  then obtain rs where
    rs: "canonicalResults enc (map_of (memResults a)) domainOrder = Inr rs"
    and o: "out = emitField ''timestamp'' (memTimestamp a)
                @ emitField ''hostname'' (memHostname a)
                @ emitField ''results'' rs
                @ emitField ''summary'' (canonicalSummary (memSummary a))"
    by (auto simp add: canonicalize_def split: sum.splits)
  from rs [unfolded canonicalResults_domainOrder] o
  show "\<exists>n p f d c k.
           map_of (memResults a) Network = Some n \<and> map_of (memResults a) Processes = Some p
           \<and> map_of (memResults a) Filesystem = Some f
           \<and> map_of (memResults a) Dependencies = Some d
           \<and> map_of (memResults a) Configuration = Some c
           \<and> map_of (memResults a) Containers = Some k
           \<and> out = emitField ''timestamp'' (memTimestamp a)
                @ emitField ''hostname'' (memHostname a)
                @ emitField ''results''
                    (emitField ''network'' (enc n) @ emitField ''processes'' (enc p)
                     @ emitField ''filesystem'' (enc f) @ emitField ''dependencies'' (enc d)
                     @ emitField ''configuration'' (enc c) @ emitField ''containers'' (enc k))
                @ emitField ''summary'' (canonicalSummary (memSummary a))"
    by blast
qed


text \<open>The same report with its entries held in two different orders.\<close>

theorem canonicalize_order_stable_witness:
  "sameReport memA memB
   \<and> canonicalize (\<lambda>r. r) memA = canonicalize (\<lambda>r. r) memB
   \<and> canonicalize (\<lambda>r. r) memB = Inr (''timestamp:4:6003,hostname:5:alpha,''
        @ ''results:91:network:1:n,processes:1:p,filesystem:1:f,dependencies:1:d,''
        @ ''configuration:1:c,containers:1:k,,''
        @ ''summary:99:totalIssues:1:0,criticalIssues:1:0,highIssues:1:0,mediumIssues:1:0,''
        @ ''lowIssues:1:0,riskLevel:5:CLEAN,,'')"
proof -
  have same: "sameReport memA memB"
    by (simp add: sameReport_def memA_def memB_def domainOrder_def)
  have outB: "canonicalize (\<lambda>r. r) memB = Inr (''timestamp:4:6003,hostname:5:alpha,''
        @ ''results:91:network:1:n,processes:1:p,filesystem:1:f,dependencies:1:d,''
        @ ''configuration:1:c,containers:1:k,,''
        @ ''summary:99:totalIssues:1:0,criticalIssues:1:0,highIssues:1:0,mediumIssues:1:0,''
        @ ''lowIssues:1:0,riskLevel:5:CLEAN,,'')"
    by (simp add: canonicalize_def memA_def memB_def domainOrder_def emitField_def
        canonicalSummary_def showNat.simps digit_def)
  from canonicalize_order_stable [of memA memB "\<lambda>r. r"] same
  have "canonicalize (\<lambda>r. r) memA = canonicalize (\<lambda>r. r) memB"
    by blast
  with same outB show ?thesis by blast
qed

end
